theory Spec2Isabelle
  imports Complex_Main
begin

section \<open>Fixed-point RGB / YCbCr coefficient generator (ycbcr.py)\<close>

text \<open>
  The script derives a forward matrix from two weights, inverts it, rescales both
  matrices to 16.16 fixed point, rounds, prepends a bias to every row and prints the rows
  as shift expressions. Python floats are embedded as exact rationals; everything that
  raises in the script is a value of \<open>py_error\<close>, and the printed text is threaded
  through the model as a list of lines.
\<close>

subsection \<open>Errors and arithmetic primitives\<close>

datatype py_error = ZeroDivisionError | LinAlgError | TypeError

definition bindE :: "py_error + 'a \<Rightarrow> ('a \<Rightarrow> py_error + 'b) \<Rightarrow> py_error + 'b" where
  "bindE m f = (case m of Inl e \<Rightarrow> Inl e | Inr x \<Rightarrow> f x)"

text \<open>True division of two floats: a zero divisor raises.\<close>

definition py_truediv :: "rat \<Rightarrow> rat \<Rightarrow> py_error + rat" where
  "py_truediv x y = (if y = 0 then Inl ZeroDivisionError else Inr (x / y))"

text \<open>\<open>round()\<close> of a numpy matrix entry: to the nearest integer, a tie to the even one.\<close>

definition np_round :: "rat \<Rightarrow> int" where
  "np_round x =
     (let f = \<lfloor>x\<rfloor>; d = x - of_int f
      in if d < 1 / 2 then f
         else if 1 / 2 < d then f + 1
         else if even f then f else f + 1)"

text \<open>\<open>int()\<close> of a float: truncation towards zero.\<close>

definition py_int :: "rat \<Rightarrow> int" where
  "py_int x = (if 0 \<le> x then \<lfloor>x\<rfloor> else \<lceil>x\<rceil>)"

subsection \<open>The forward matrix and its inverse (lines 20 to 27)\<close>

text \<open>The weights the script is run with: \<open>kb, kr = 0.0722, 0.2126\<close> (ITU-R BT.709).\<close>

definition kb_bt709 :: rat where
  "kb_bt709 = 722 / 10000"

definition kr_bt709 :: rat where
  "kr_bt709 = 2126 / 10000"

definition matrix_A :: "rat \<Rightarrow> rat \<Rightarrow> py_error + rat list list" where
  "matrix_A kb kr =
     bindE (py_truediv (1 / 2 * (- kr)) (1 - kb)) (\<lambda>a10.
     bindE (py_truediv (1 / 2 * (- (1 - kr - kb))) (1 - kb)) (\<lambda>a11.
     bindE (py_truediv (1 / 2 * (1 - kb)) (1 - kb)) (\<lambda>a12.
     bindE (py_truediv (1 / 2 * (1 - kr)) (1 - kr)) (\<lambda>a20.
     bindE (py_truediv (1 / 2 * (- (1 - kr - kb))) (1 - kr)) (\<lambda>a21.
     bindE (py_truediv (1 / 2 * (- kb)) (1 - kr)) (\<lambda>a22.
     Inr [[kr, 1 - kr - kb, kb], [a10, a11, a12], [a20, a21, a22]]))))))"

text \<open>
  \<open>linalg.inv\<close> is numpy's: it returns the inverse of a square matrix and raises
  \<open>LinAlgError\<close> on a singular one. Over exact arithmetic the inverse is unique, so the
  3 by 3 case is given by the adjugate over the determinant.
\<close>

fun det3 :: "rat list list \<Rightarrow> rat" where
  "det3 [[a, b, c], [d, e, f], [g, h, i]] =
     a * (e * i - f * h) - b * (d * i - f * g) + c * (d * h - e * g)"
| "det3 _ = 0"

fun adjugate3 :: "rat list list \<Rightarrow> rat list list" where
  "adjugate3 [[a, b, c], [d, e, f], [g, h, i]] =
     [[e * i - f * h, c * h - b * i, b * f - c * e],
      [f * g - d * i, a * i - c * g, c * d - a * f],
      [d * h - e * g, b * g - a * h, a * e - b * d]]"
| "adjugate3 _ = []"

definition linalg_inv :: "rat list list \<Rightarrow> py_error + rat list list" where
  "linalg_inv M =
     (if det3 M = 0 then Inl LinAlgError
      else Inr (map (map (\<lambda>x. x / det3 M)) (adjugate3 M)))"

definition mat_mul :: "rat list list \<Rightarrow> rat list list \<Rightarrow> rat list list" where
  "mat_mul M N =
     map (\<lambda>i. map (\<lambda>j. M ! i ! 0 * N ! 0 ! j + M ! i ! 1 * N ! 1 ! j + M ! i ! 2 * N ! 2 ! j)
                   [0, 1, 2]) [0, 1, 2]"

definition identity3 :: "rat list list" where
  "identity3 = [[1, 0, 0], [0, 1, 0], [0, 0, 1]]"

subsection \<open>Scaling, rounding and biases (lines 30 to 35 and 42 to 46)\<close>

definition scale_row :: "rat \<Rightarrow> rat list \<Rightarrow> rat list" where
  "scale_row s row = map (\<lambda>x. x * s) row"

text \<open>\<open>M[0] *= s0; M[1:] *= s1\<close>\<close>

definition scale_rows :: "rat \<Rightarrow> rat \<Rightarrow> rat list list \<Rightarrow> rat list list" where
  "scale_rows s0 s1 M =
     (case M of [] \<Rightarrow> [] | r # rs \<Rightarrow> scale_row s0 r # map (scale_row s1) rs)"

text \<open>\<open>M.round().tolist()\<close>: the rounded entries are still floats.\<close>

definition round_tolist :: "rat list list \<Rightarrow> rat list list" where
  "round_tolist M = map (map (\<lambda>x. of_int (np_round x))) M"

text \<open>\<open>M[i].insert(0, v)\<close>\<close>

definition insert_bias :: "nat \<Rightarrow> rat \<Rightarrow> rat list list \<Rightarrow> rat list list" where
  "insert_bias i v M = M[i := v # (M ! i)]"

definition rgb_to_ycbcr_rows :: "rat list list \<Rightarrow> rat list list" where
  "rgb_to_ycbcr_rows A0 =
     (let A1 = scale_rows (65536 * 219 / 255) (65536 * 224 / 255) A0;
          A2 = round_tolist A1;
          A3 = insert_bias 0 (16 * 65536 + 32768) A2
      in foldl (\<lambda>M i. insert_bias i (128 * 65536 + 32768) M) A3 [1, 2])"

definition ycbcr_to_rgb_rows :: "rat list list \<Rightarrow> rat list list" where
  "ycbcr_to_rgb_rows B0 =
     (let B1 = scale_rows (65536 * 255 / 219) (65536 * 255 / 224) B0;
          B2 = round_tolist B1
      in foldl (\<lambda>M i. insert_bias i 32768 M) B2 [0, 1, 2])"

subsection \<open>Formatting (\<open>%d\<close>) and printing (lines 36 to 54)\<close>

definition digit_char :: "nat \<Rightarrow> char" where
  "digit_char n = ''0123456789'' ! (n mod 10)"

fun show_nat :: "nat \<Rightarrow> string" where
  "show_nat n = (if n < 10 then [digit_char n] else show_nat (n div 10) @ [digit_char n])"

declare show_nat.simps [simp del]

definition show_int :: "int \<Rightarrow> string" where
  "show_int i = (if i < 0 then CHR ''-'' # show_nat (nat (- i)) else show_nat (nat i))"

text \<open>The format string applied to a tuple: four \<open>%d\<close> need exactly four values.\<close>

fun format_row :: "string \<Rightarrow> string \<Rightarrow> string \<Rightarrow> int list \<Rightarrow> py_error + string" where
  "format_row x y z [b, c0, c1, c2] =
     Inr (''('' @ show_int b @ '' + '' @ show_int c0 @ ''*'' @ x @ '' + '' @ show_int c1 @ ''*'' @ y
          @ '' + '' @ show_int c2 @ ''*'' @ z @ '')>>16'')"
| "format_row x y z _ = Inl TypeError"

definition format_forward :: "int list \<Rightarrow> py_error + string" where
  "format_forward = format_row ''r'' ''g'' ''b''"

definition format_inverse :: "int list \<Rightarrow> py_error + string" where
  "format_inverse = format_row ''y'' ''cb'' ''cr''"

text \<open>
  The state of a run is the text printed so far, one entry per \<open>print\<close> call, and the
  exception that ended it, if any.
\<close>

type_synonym run = "string list \<times> py_error option"

definition emit :: "string \<Rightarrow> string list \<Rightarrow> string list" where
  "emit s out = out @ [s]"

text \<open>The three consecutive prints of formatted rows: the first failure ends the run.\<close>

fun print_rows :: "(int list \<Rightarrow> py_error + string) \<Rightarrow> rat list list \<Rightarrow> string list \<Rightarrow> run" where
  "print_rows fmt [] out = (out, None)"
| "print_rows fmt (row # rows) out =
     (case fmt (map py_int row) of
        Inl e \<Rightarrow> (out, Some e)
      | Inr s \<Rightarrow> print_rows fmt rows (emit s out))"

text \<open>
  The script, lines 22 to 54. \<open>linalg.inv\<close> is numpy's and not part of the script, so the
  run takes the inversion routine as a parameter \<open>invert\<close>.
\<close>

definition run_script :: "(rat list list \<Rightarrow> py_error + rat list list) \<Rightarrow> rat \<Rightarrow> rat \<Rightarrow> run" where
  "run_script invert kb kr =
     (case matrix_A kb kr of
        Inl e \<Rightarrow> ([], Some e)
      | Inr A0 \<Rightarrow>
         (case invert A0 of
            Inl e \<Rightarrow> ([], Some e)
          | Inr B0 \<Rightarrow>
             (let A4 = rgb_to_ycbcr_rows A0;
                  out1 = emit ''RGB to YCbCr:'' (emit [] [])
              in case print_rows format_forward [A4 ! 0, A4 ! 1, A4 ! 2] out1 of
                   (out2, Some e) \<Rightarrow> (out2, Some e)
                 | (out2, None) \<Rightarrow>
                    (let B4 = ycbcr_to_rgb_rows B0;
                         out3 = emit ''cr -= 128'' (emit ''cb -= 128'' (emit ''y -= 16''
                                  (emit ''YCbCr to RGB:'' (emit [] out2))))
                     in print_rows format_inverse [B4 ! 0, B4 ! 1, B4 ! 2] out3))))"

text \<open>The run with the exact inverse in the place of \<open>linalg.inv\<close>.\<close>

definition program :: "rat \<Rightarrow> rat \<Rightarrow> run" where
  "program kb kr = run_script linalg_inv kb kr"

text \<open>The script as it stands: the run with its two module-level constants.\<close>

definition script :: run where
  "script = program kb_bt709 kr_bt709"

text \<open>
  The integer rows handed to the format strings, \<open>tuple(map(int, A[i]))\<close> and
  \<open>tuple(map(int, B[i]))\<close>, as the script computes them before its first print.
\<close>

definition forward_table :: "rat \<Rightarrow> rat \<Rightarrow> py_error + int list list" where
  "forward_table kb kr =
     bindE (matrix_A kb kr) (\<lambda>A0. bindE (linalg_inv A0) (\<lambda>B0.
       Inr (map (map py_int) (rgb_to_ycbcr_rows A0))))"

definition inverse_table :: "rat \<Rightarrow> rat \<Rightarrow> py_error + int list list" where
  "inverse_table kb kr =
     bindE (matrix_A kb kr) (\<lambda>A0. bindE (linalg_inv A0) (\<lambda>B0.
       Inr (map (map py_int) (ycbcr_to_rgb_rows B0))))"

subsection \<open>The printed expressions as integer functions\<close>

text \<open>
  What a printed row computes on Python integers: \<open>(b + c0*x + c1*y + c2*z)>>16\<close>, the
  shift being the floor division by 65536. The inverse expressions are preceded by
  \<open>y -= 16\<close>, \<open>cb -= 128\<close>, \<open>cr -= 128\<close>.
\<close>

fun row_value :: "int list \<Rightarrow> int \<times> int \<times> int \<Rightarrow> int" where
  "row_value [b, c0, c1, c2] (x, y, z) = b + c0 * x + c1 * y + c2 * z"
| "row_value _ _ = 0"

definition eval_row :: "int list \<Rightarrow> int \<times> int \<times> int \<Rightarrow> int" where
  "eval_row row p = row_value row p div 65536"

definition apply_forward :: "int list list \<Rightarrow> int \<times> int \<times> int \<Rightarrow> int \<times> int \<times> int" where
  "apply_forward F p = (eval_row (F ! 0) p, eval_row (F ! 1) p, eval_row (F ! 2) p)"

definition apply_inverse :: "int list list \<Rightarrow> int \<times> int \<times> int \<Rightarrow> int \<times> int \<times> int" where
  "apply_inverse G q =
     (case q of (y, cb, cr) \<Rightarrow>
        (let q' = (y - 16, cb - 128, cr - 128)
         in (eval_row (G ! 0) q', eval_row (G ! 1) q', eval_row (G ! 2) q')))"

definition round_trip :: "rat \<Rightarrow> rat \<Rightarrow> int \<times> int \<times> int \<Rightarrow> py_error + int \<times> int \<times> int" where
  "round_trip kb kr p =
     bindE (forward_table kb kr) (\<lambda>F. bindE (inverse_table kb kr) (\<lambda>G.
       Inr (apply_inverse G (apply_forward F p))))"

subsection \<open>The specification's side\<close>


text \<open>The weights the specification calls valid.\<close>

definition valid_weights :: "rat \<Rightarrow> rat \<Rightarrow> bool" where
  "valid_weights kb kr \<longleftrightarrow> 0 < kb \<and> 0 < kr \<and> kb + kr < 1"

text \<open>The forward matrix as the specification writes its three rows.\<close>

definition A_spec :: "rat \<Rightarrow> rat \<Rightarrow> rat list list" where
  "A_spec kb kr =
     [[kr, 1 - kr - kb, kb],
      [- (1 / 2) * kr / (1 - kb), - (1 / 2) * (1 - kr - kb) / (1 - kb), 1 / 2],
      [1 / 2, - (1 / 2) * (1 - kr - kb) / (1 - kr), - (1 / 2) * kb / (1 - kr)]]"

text \<open>The inverse of \<open>A_spec\<close> in closed form.\<close>

definition B_closed :: "rat \<Rightarrow> rat \<Rightarrow> rat list list" where
  "B_closed kb kr =
     [[1, 0, 2 * (1 - kr)],
      [1, - 2 * kb * (1 - kb) / (1 - kr - kb), - 2 * kr * (1 - kr) / (1 - kr - kb)],
      [1, 2 * (1 - kb), 0]]"

text \<open>The two line shapes of the output format, and a base-10 signed integer.\<close>

definition forward_line :: "int \<Rightarrow> int \<Rightarrow> int \<Rightarrow> int \<Rightarrow> string" where
  "forward_line b m0 m1 m2 =
     ''('' @ show_int b @ '' + '' @ show_int m0 @ ''*r + '' @ show_int m1 @ ''*g + ''
     @ show_int m2 @ ''*b)>>16''"

definition inverse_line :: "int \<Rightarrow> int \<Rightarrow> int \<Rightarrow> int \<Rightarrow> string" where
  "inverse_line b n0 n1 n2 =
     ''('' @ show_int b @ '' + '' @ show_int n0 @ ''*y + '' @ show_int n1 @ ''*cb + ''
     @ show_int n2 @ ''*cr)>>16''"

definition is_digit :: "char \<Rightarrow> bool" where
  "is_digit c \<longleftrightarrow> c \<in> set ''0123456789''"

fun signed_decimal :: "string \<Rightarrow> bool" where
  "signed_decimal [] = False"
| "signed_decimal (c # cs) =
     (if c = CHR ''-'' then cs \<noteq> [] \<and> list_all is_digit cs else list_all is_digit (c # cs))"

text \<open>
  Scaling the first row of the inverse by \<open>65536 * 255 / 219\<close> and the other two by
  \<open>65536 * 255 / 224\<close>, entry by entry, as the specification words it.
\<close>

definition inverse_factor :: "nat \<Rightarrow> rat" where
  "inverse_factor i = (if i = 0 then 65536 * 255 / 219 else 65536 * 255 / 224)"

definition scaled_inverse_entry :: "rat list list \<Rightarrow> nat \<Rightarrow> nat \<Rightarrow> rat" where
  "scaled_inverse_entry B0 i j = B0 ! i ! j * inverse_factor i"

section \<open>Basic facts about the embedding\<close>

lemma np_round_of_int: "np_round (of_int n) = n"
  by (simp add: np_round_def)

lemma np_round_error: "\<bar>of_int (np_round x) - x\<bar> \<le> 1 / 2"
proof -
  have "of_int \<lfloor>x\<rfloor> \<le> x" "x < of_int \<lfloor>x\<rfloor> + 1" by linarith+
  then show ?thesis
    by (auto simp add: np_round_def Let_def)
qed

lemma py_int_of_int: "py_int (of_int n) = n"
  by (simp add: py_int_def)

lemma matrix_A_eq:
  assumes "kb \<noteq> 1" "kr \<noteq> 1"
  shows "matrix_A kb kr = Inr (A_spec kb kr)"
proof -
  have nz: "1 - kb \<noteq> 0" "1 - kr \<noteq> 0" "2 - 2 * kb \<noteq> 0" "2 - 2 * kr \<noteq> 0"
    using assms by simp_all
  have e: "kb - (1 - kr) = - (1 - kr - kb)" by simp
  show ?thesis
    using assms unfolding matrix_A_def py_truediv_def bindE_def A_spec_def
    by (simp add: e del: minus_diff_eq)
qed

lemma det3_A_spec:
  assumes "kb \<noteq> 1" "kr \<noteq> 1"
  shows "det3 (A_spec kb kr) = (1 - kr - kb) / (4 * (1 - kb) * (1 - kr))"
proof -
  have nz: "1 - kb \<noteq> 0" "1 - kr \<noteq> 0" using assms by simp_all
  show ?thesis
    unfolding A_spec_def det3.simps using nz
    by (simp add: divide_simps) algebra
qed

lemma linalg_inv_A_spec:
  assumes "kb \<noteq> 1" "kr \<noteq> 1" "kb + kr \<noteq> 1"
  shows "linalg_inv (A_spec kb kr) = Inr (B_closed kb kr)"
proof -
  have nz: "1 - kb \<noteq> 0" "1 - kr \<noteq> 0" "1 - kr - kb \<noteq> 0" using assms by auto
  have d: "det3 (A_spec kb kr) \<noteq> 0"
    using nz by (simp add: det3_A_spec assms)
  have "map (map (\<lambda>x. x / det3 (A_spec kb kr))) (adjugate3 (A_spec kb kr)) = B_closed kb kr"
    unfolding det3_A_spec[OF assms(1,2)]
    unfolding A_spec_def B_closed_def adjugate3.simps using nz
    apply (simp add: divide_simps)
    apply (intro conjI; algebra)
    done
  then show ?thesis using d by (simp add: linalg_inv_def)
qed

lemma rgb_to_ycbcr_rows_3x3:
  "rgb_to_ycbcr_rows [[a, b, c], [d, e, f], [g, h, i]] =
     [[1081344, of_int (np_round (a * (65536 * 219 / 255))), of_int (np_round (b * (65536 * 219 / 255))),
       of_int (np_round (c * (65536 * 219 / 255)))],
      [8421376, of_int (np_round (d * (65536 * 224 / 255))), of_int (np_round (e * (65536 * 224 / 255))),
       of_int (np_round (f * (65536 * 224 / 255)))],
      [8421376, of_int (np_round (g * (65536 * 224 / 255))), of_int (np_round (h * (65536 * 224 / 255))),
       of_int (np_round (i * (65536 * 224 / 255)))]]"
  by (simp add: rgb_to_ycbcr_rows_def scale_rows_def scale_row_def round_tolist_def
      insert_bias_def)

lemma ycbcr_to_rgb_rows_3x3:
  "ycbcr_to_rgb_rows [[a, b, c], [d, e, f], [g, h, i]] =
     [[32768, of_int (np_round (a * (65536 * 255 / 219))), of_int (np_round (b * (65536 * 255 / 219))),
       of_int (np_round (c * (65536 * 255 / 219)))],
      [32768, of_int (np_round (d * (65536 * 255 / 224))), of_int (np_round (e * (65536 * 255 / 224))),
       of_int (np_round (f * (65536 * 255 / 224)))],
      [32768, of_int (np_round (g * (65536 * 255 / 224))), of_int (np_round (h * (65536 * 255 / 224))),
       of_int (np_round (i * (65536 * 255 / 224)))]]"
  by (simp add: ycbcr_to_rgb_rows_def scale_rows_def scale_row_def round_tolist_def
      insert_bias_def)

lemma py_int_numeral: "py_int (numeral k) = numeral k"
  using py_int_of_int [of "numeral k"] by simp

lemma forward_table_3x3:
  assumes "matrix_A kb kr = Inr [[a, b, c], [d, e, f], [g, h, i]]"
    and "linalg_inv [[a, b, c], [d, e, f], [g, h, i]] = Inr B0"
  shows "forward_table kb kr =
     Inr [[1081344, np_round (a * (65536 * 219 / 255)), np_round (b * (65536 * 219 / 255)),
           np_round (c * (65536 * 219 / 255))],
          [8421376, np_round (d * (65536 * 224 / 255)), np_round (e * (65536 * 224 / 255)),
           np_round (f * (65536 * 224 / 255))],
          [8421376, np_round (g * (65536 * 224 / 255)), np_round (h * (65536 * 224 / 255)),
           np_round (i * (65536 * 224 / 255))]]"
  using assms
  by (simp add: forward_table_def bindE_def rgb_to_ycbcr_rows_3x3 py_int_of_int py_int_numeral)

lemma inverse_table_3x3:
  assumes "matrix_A kb kr = Inr A0"
    and "linalg_inv A0 = Inr [[a, b, c], [d, e, f], [g, h, i]]"
  shows "inverse_table kb kr =
     Inr [[32768, np_round (a * (65536 * 255 / 219)), np_round (b * (65536 * 255 / 219)),
           np_round (c * (65536 * 255 / 219))],
          [32768, np_round (d * (65536 * 255 / 224)), np_round (e * (65536 * 255 / 224)),
           np_round (f * (65536 * 255 / 224))],
          [32768, np_round (g * (65536 * 255 / 224)), np_round (h * (65536 * 255 / 224)),
           np_round (i * (65536 * 255 / 224))]]"
  using assms
  by (simp add: inverse_table_def bindE_def ycbcr_to_rgb_rows_3x3 py_int_of_int py_int_numeral)

lemma three_rows:
  assumes "map f X = [r0, r1, r2]"
  obtains x0 x1 x2 where "X = [x0, x1, x2]" "f x0 = r0" "f x1 = r1" "f x2 = r2"
  using assms by (auto simp add: map_eq_Cons_conv)

lemma print_forward_rows:
  assumes "map (map py_int) X =
     [[b0, m00, m01, m02], [b1, m10, m11, m12], [b2, m20, m21, m22]]"
  shows "print_rows format_forward [X ! 0, X ! 1, X ! 2] out =
     (out @ [forward_line b0 m00 m01 m02, forward_line b1 m10 m11 m12,
             forward_line b2 m20 m21 m22], None)"
proof -
  from assms obtain x0 x1 x2 where "X = [x0, x1, x2]"
    "map py_int x0 = [b0, m00, m01, m02]" "map py_int x1 = [b1, m10, m11, m12]"
    "map py_int x2 = [b2, m20, m21, m22]"
    by (rule three_rows)
  then show ?thesis
    by (simp add: format_forward_def forward_line_def emit_def)
qed

lemma print_inverse_rows:
  assumes "map (map py_int) X =
     [[b0, n00, n01, n02], [b1, n10, n11, n12], [b2, n20, n21, n22]]"
  shows "print_rows format_inverse [X ! 0, X ! 1, X ! 2] out =
     (out @ [inverse_line b0 n00 n01 n02, inverse_line b1 n10 n11 n12,
             inverse_line b2 n20 n21 n22], None)"
proof -
  from assms obtain x0 x1 x2 where "X = [x0, x1, x2]"
    "map py_int x0 = [b0, n00, n01, n02]" "map py_int x1 = [b1, n10, n11, n12]"
    "map py_int x2 = [b2, n20, n21, n22]"
    by (rule three_rows)
  then show ?thesis
    by (simp add: format_inverse_def inverse_line_def emit_def)
qed

lemma program_prints_tables:
  assumes F: "forward_table kb kr =
       Inr [[b0, m00, m01, m02], [b1, m10, m11, m12], [b2, m20, m21, m22]]"
    and G: "inverse_table kb kr =
       Inr [[c0, n00, n01, n02], [c1, n10, n11, n12], [c2, n20, n21, n22]]"
  shows "program kb kr =
     ([[], ''RGB to YCbCr:'',
       forward_line b0 m00 m01 m02, forward_line b1 m10 m11 m12, forward_line b2 m20 m21 m22,
       [], ''YCbCr to RGB:'', ''y -= 16'', ''cb -= 128'', ''cr -= 128'',
       inverse_line c0 n00 n01 n02, inverse_line c1 n10 n11 n12, inverse_line c2 n20 n21 n22],
      None)"
proof -
  from F obtain A0 B0 where A0: "matrix_A kb kr = Inr A0" and B0: "linalg_inv A0 = Inr B0"
    by (auto simp add: forward_table_def bindE_def split: sum.splits)
  from F A0 B0 have rowsA: "map (map py_int) (rgb_to_ycbcr_rows A0) =
       [[b0, m00, m01, m02], [b1, m10, m11, m12], [b2, m20, m21, m22]]"
    by (simp add: forward_table_def bindE_def)
  from G A0 B0 have rowsB: "map (map py_int) (ycbcr_to_rgb_rows B0) =
       [[c0, n00, n01, n02], [c1, n10, n11, n12], [c2, n20, n21, n22]]"
    by (simp add: inverse_table_def bindE_def)
  show ?thesis
    unfolding program_def run_script_def
    by (simp only: A0 B0 sum.case Let_def print_forward_rows [OF rowsA]
        print_inverse_rows [OF rowsB] prod.case option.case emit_def append.simps)
qed

lemma np_round_eqI:
  assumes "\<bar>x - of_int n\<bar> < 1 / 2"
  shows "np_round x = n"
proof -
  have b: "of_int \<lfloor>x\<rfloor> \<le> x" "x < of_int \<lfloor>x\<rfloor> + 1" by linarith+
  have "rat_of_int \<lfloor>x\<rfloor> < of_int n + 1" "rat_of_int n - 2 < of_int \<lfloor>x\<rfloor>"
    using assms b by linarith+
  then have "rat_of_int \<lfloor>x\<rfloor> < of_int (n + 1)" "rat_of_int (n - 2) < of_int \<lfloor>x\<rfloor>"
    by simp_all
  then have "\<lfloor>x\<rfloor> < n + 1" "n - 2 < \<lfloor>x\<rfloor>"
    by (simp_all only: of_int_less_iff)
  then have "\<lfloor>x\<rfloor> = n \<or> \<lfloor>x\<rfloor> = n - 1" by linarith
  then show ?thesis
  proof
    assume f: "\<lfloor>x\<rfloor> = n"
    then have "x - of_int n < 1 / 2" using assms by linarith
    with f show ?thesis by (simp add: np_round_def Let_def)
  next
    assume f: "\<lfloor>x\<rfloor> = n - 1"
    have "1 / 2 < x - of_int (n - 1)" using assms by linarith
    with f show ?thesis by (simp add: np_round_def Let_def)
  qed
qed

lemma mat_mul_A_B:
  assumes "kb \<noteq> 1" "kr \<noteq> 1" "kb + kr \<noteq> 1"
  shows "mat_mul (A_spec kb kr) (B_closed kb kr) = identity3"
proof -
  have nz: "1 - kb \<noteq> 0" "1 - kr \<noteq> 0" "1 - kr - kb \<noteq> 0" using assms by auto
  show ?thesis
    unfolding mat_mul_def A_spec_def B_closed_def identity3_def using nz
    apply (simp add: divide_simps)
    apply (intro conjI; algebra)
    done
qed

lemma mat_mul_B_A:
  assumes "kb \<noteq> 1" "kr \<noteq> 1" "kb + kr \<noteq> 1"
  shows "mat_mul (B_closed kb kr) (A_spec kb kr) = identity3"
proof -
  have nz: "1 - kb \<noteq> 0" "1 - kr \<noteq> 0" "1 - kr - kb \<noteq> 0" using assms by auto
  show ?thesis
    unfolding mat_mul_def A_spec_def B_closed_def identity3_def using nz
    apply (simp add: divide_simps)
    apply (intro conjI; algebra)
    done
qed

lemma valid_weights_nondegenerate:
  assumes "valid_weights kb kr"
  shows "kb \<noteq> 1" "kr \<noteq> 1" "kb + kr \<noteq> 1"
  using assms by (auto simp add: valid_weights_def)

lemma valid_bt709: "valid_weights (361 / 5000) (1063 / 5000)"
  by (simp add: valid_weights_def)

subsection \<open>The two tables and the printed text\<close>

lemma tables_nondegenerate:
  assumes "kb \<noteq> 1" "kr \<noteq> 1" "kb + kr \<noteq> 1"
  shows "forward_table kb kr =
     Inr [[1081344, np_round (kr * (65536 * 219 / 255)),
           np_round ((1 - kr - kb) * (65536 * 219 / 255)), np_round (kb * (65536 * 219 / 255))],
          [8421376, np_round (- (1 / 2) * kr / (1 - kb) * (65536 * 224 / 255)),
           np_round (- (1 / 2) * (1 - kr - kb) / (1 - kb) * (65536 * 224 / 255)),
           np_round (1 / 2 * (65536 * 224 / 255))],
          [8421376, np_round (1 / 2 * (65536 * 224 / 255)),
           np_round (- (1 / 2) * (1 - kr - kb) / (1 - kr) * (65536 * 224 / 255)),
           np_round (- (1 / 2) * kb / (1 - kr) * (65536 * 224 / 255))]]"
    and "inverse_table kb kr =
     Inr [[32768, np_round (1 * (65536 * 255 / 219)), np_round (0 * (65536 * 255 / 219)),
           np_round (2 * (1 - kr) * (65536 * 255 / 219))],
          [32768, np_round (1 * (65536 * 255 / 224)),
           np_round (- 2 * kb * (1 - kb) / (1 - kr - kb) * (65536 * 255 / 224)),
           np_round (- 2 * kr * (1 - kr) / (1 - kr - kb) * (65536 * 255 / 224))],
          [32768, np_round (1 * (65536 * 255 / 224)), np_round (2 * (1 - kb) * (65536 * 255 / 224)),
           np_round (0 * (65536 * 255 / 224))]]"
proof -
  have A: "matrix_A kb kr = Inr (A_spec kb kr)"
    using assms by (simp add: matrix_A_eq)
  have B: "linalg_inv (A_spec kb kr) = Inr (B_closed kb kr)"
    using assms by (rule linalg_inv_A_spec)
  show "forward_table kb kr =
     Inr [[1081344, np_round (kr * (65536 * 219 / 255)),
           np_round ((1 - kr - kb) * (65536 * 219 / 255)), np_round (kb * (65536 * 219 / 255))],
          [8421376, np_round (- (1 / 2) * kr / (1 - kb) * (65536 * 224 / 255)),
           np_round (- (1 / 2) * (1 - kr - kb) / (1 - kb) * (65536 * 224 / 255)),
           np_round (1 / 2 * (65536 * 224 / 255))],
          [8421376, np_round (1 / 2 * (65536 * 224 / 255)),
           np_round (- (1 / 2) * (1 - kr - kb) / (1 - kr) * (65536 * 224 / 255)),
           np_round (- (1 / 2) * kb / (1 - kr) * (65536 * 224 / 255))]]"
    by (rule forward_table_3x3 [OF A [unfolded A_spec_def] B [unfolded A_spec_def]])
  show "inverse_table kb kr =
     Inr [[32768, np_round (1 * (65536 * 255 / 219)), np_round (0 * (65536 * 255 / 219)),
           np_round (2 * (1 - kr) * (65536 * 255 / 219))],
          [32768, np_round (1 * (65536 * 255 / 224)),
           np_round (- 2 * kb * (1 - kb) / (1 - kr - kb) * (65536 * 255 / 224)),
           np_round (- 2 * kr * (1 - kr) / (1 - kr - kb) * (65536 * 255 / 224))],
          [32768, np_round (1 * (65536 * 255 / 224)), np_round (2 * (1 - kb) * (65536 * 255 / 224)),
           np_round (0 * (65536 * 255 / 224))]]"
    by (rule inverse_table_3x3 [OF A B [unfolded B_closed_def]])
qed

lemma forward_table_bt709:
  "forward_table (361 / 5000) (1063 / 5000) =
     Inr [[1081344, 11966, 40254, 4064], [8421376, - 6596, - 22189, 28784],
          [8421376, 28784, - 26145, - 2639]]"
proof -
  have r: "np_round (1063 / 5000 * (65536 * 219 / 255)) = 11966"
    "np_round ((1 - 1063 / 5000 - 361 / 5000) * (65536 * 219 / 255)) = 40254"
    "np_round (361 / 5000 * (65536 * 219 / 255)) = 4064"
    "np_round (- (1 / 2) * (1063 / 5000) / (1 - 361 / 5000) * (65536 * 224 / 255)) = - 6596"
    "np_round (- (1 / 2) * (1 - 1063 / 5000 - 361 / 5000) / (1 - 361 / 5000) * (65536 * 224 / 255))
       = - 22189"
    "np_round (1 / 2 * (65536 * 224 / 255)) = 28784"
    "np_round (- (1 / 2) * (1 - 1063 / 5000 - 361 / 5000) / (1 - 1063 / 5000) * (65536 * 224 / 255))
       = - 26145"
    "np_round (- (1 / 2) * (361 / 5000) / (1 - 1063 / 5000) * (65536 * 224 / 255)) = - 2639"
    by (rule np_round_eqI, simp)+
  show ?thesis
    by (simp only: tables_nondegenerate(1) [of "361 / 5000" "1063 / 5000", simplified, unfolded r [simplified]])
qed

lemma inverse_table_bt709:
  "inverse_table (361 / 5000) (1063 / 5000) =
     Inr [[32768, 76309, 0, 120171], [32768, 74606, - 13975, - 34925],
          [32768, 74606, 138438, 0]]"
proof -
  have r: "np_round (1 * (65536 * 255 / 219)) = 76309"
    "np_round (0 * (65536 * 255 / 219)) = 0"
    "np_round (2 * (1 - 1063 / 5000) * (65536 * 255 / 219)) = 120171"
    "np_round (1 * (65536 * 255 / 224)) = 74606"
    "np_round (- 2 * (361 / 5000) * (1 - 361 / 5000) / (1 - 1063 / 5000 - 361 / 5000)
        * (65536 * 255 / 224)) = - 13975"
    "np_round (- 2 * (1063 / 5000) * (1 - 1063 / 5000) / (1 - 1063 / 5000 - 361 / 5000)
        * (65536 * 255 / 224)) = - 34925"
    "np_round (2 * (1 - 361 / 5000) * (65536 * 255 / 224)) = 138438"
    "np_round (0 * (65536 * 255 / 224)) = 0"
    by (rule np_round_eqI, simp)+
  show ?thesis
    by (simp only: tables_nondegenerate(2) [of "361 / 5000" "1063 / 5000", simplified, unfolded r [simplified]])
qed

lemma program_succeeds:
  assumes "kb \<noteq> 1" "kr \<noteq> 1" "kb + kr \<noteq> 1"
  shows "\<exists>m00 m01 m02 m10 m11 m12 m20 m21 m22 n00 n01 n02 n10 n11 n12 n20 n21 n22.
    forward_table kb kr =
      Inr [[1081344, m00, m01, m02], [8421376, m10, m11, m12], [8421376, m20, m21, m22]]
    \<and> inverse_table kb kr =
      Inr [[32768, n00, n01, n02], [32768, n10, n11, n12], [32768, n20, n21, n22]]
    \<and> program kb kr =
     ([[], ''RGB to YCbCr:'',
       forward_line 1081344 m00 m01 m02, forward_line 8421376 m10 m11 m12,
       forward_line 8421376 m20 m21 m22,
       [], ''YCbCr to RGB:'', ''y -= 16'', ''cb -= 128'', ''cr -= 128'',
       inverse_line 32768 n00 n01 n02, inverse_line 32768 n10 n11 n12,
       inverse_line 32768 n20 n21 n22], None)"
  using tables_nondegenerate [OF assms]
    program_prints_tables [OF tables_nondegenerate [OF assms]]
  by blast

lemma digit_char_is_digit: "is_digit (digit_char n)"
  unfolding digit_char_def is_digit_def by (rule nth_mem) simp

lemma show_nat_digits: "show_nat n \<noteq> [] \<and> list_all is_digit (show_nat n)"
proof (induction n rule: show_nat.induct)
  case (1 n)
  show ?case
  proof (cases "n < 10")
    case True
    then show ?thesis
      by (simp add: show_nat.simps [of n] digit_char_is_digit)
  next
    case False
    with 1 show ?thesis
      by (simp add: show_nat.simps [of n] digit_char_is_digit)
  qed
qed

lemma minus_not_digit: "is_digit c \<Longrightarrow> c \<noteq> CHR ''-''"
  by (auto simp add: is_digit_def)

lemma show_int_signed_decimal: "signed_decimal (show_int i)"
proof (cases "i < 0")
  case True
  then show ?thesis
    using show_nat_digits [of "nat (- i)"] by (simp add: show_int_def)
next
  case False
  obtain c cs where s: "show_nat (nat i) = c # cs"
    using show_nat_digits [of "nat i"] by (cases "show_nat (nat i)") auto
  then have d: "list_all is_digit (c # cs)"
    using show_nat_digits [of "nat i"] by simp
  then have "c \<noteq> CHR ''-''" by (simp add: minus_not_digit)
  with False s d show ?thesis by (simp add: show_int_def)
qed

lemma inverse_entries_nearest:
  "\<bar>of_int (np_round (scaled_inverse_entry B0 i j)) - scaled_inverse_entry B0 i j\<bar> \<le> 1 / 2"
  by (rule np_round_error)

lemma three_rounded_sum:
  assumes "a + b + c = t"
  shows "\<bar>of_int (np_round a + np_round b + np_round c) - t\<bar> \<le> 3 / 2"
proof -
  have "\<bar>(of_int (np_round a) - a) + (of_int (np_round b) - b) + (of_int (np_round c) - c)\<bar>
      \<le> 3 / 2"
    using np_round_error [of a] np_round_error [of b] np_round_error [of c] by linarith
  moreover have "of_int (np_round a + np_round b + np_round c) - t =
      (of_int (np_round a) - a) + (of_int (np_round b) - b) + (of_int (np_round c) - c)"
    using assms by simp
  ultimately show ?thesis by (simp only:)
qed

lemma int_abs_le_1:
  fixes n :: int
  assumes "\<bar>rat_of_int n\<bar> \<le> 3 / 2"
  shows "\<bar>n\<bar> \<le> 1"
proof -
  have "\<bar>rat_of_int n\<bar> < of_int 2" using assms by simp
  then have "rat_of_int \<bar>n\<bar> < of_int 2" by simp
  then have "\<bar>n\<bar> < 2" by (simp only: of_int_less_iff)
  then show ?thesis by simp
qed

lemma scaled_sum_bound:
  fixes a b c s :: rat
  assumes "0 < s" and "\<bar>a + b + c - s\<bar> \<le> 3 / 2"
  shows "\<bar>a / s + b / s + c / s - 1\<bar> \<le> 3 / s"
proof -
  have "a / s + b / s + c / s - 1 = (a + b + c - s) / s"
    using assms(1) by (simp add: field_simps)
  then have "\<bar>a / s + b / s + c / s - 1\<bar> = \<bar>a + b + c - s\<bar> / s"
    using assms(1) by (simp only: abs_divide)
  also have "\<dots> \<le> (3 / 2) / s"
    using assms by (intro divide_right_mono) simp_all
  also have "\<dots> \<le> 3 / s"
    using assms(1) by (intro divide_right_mono) simp_all
  finally show ?thesis .
qed

lemma A_spec_chroma_rows_sum:
  fixes kb kr :: rat
  assumes "kb \<noteq> 1" "kr \<noteq> 1"
  shows "- (1 / 2) * kr / (1 - kb) + - (1 / 2) * (1 - kr - kb) / (1 - kb) + 1 / 2 = 0"
    and "1 / 2 + - (1 / 2) * (1 - kr - kb) / (1 - kr) + - (1 / 2) * kb / (1 - kr) = 0"
proof -
  have nz: "1 - kb \<noteq> 0" "1 - kr \<noteq> 0" using assms by simp_all
  show "- (1 / 2) * kr / (1 - kb) + - (1 / 2) * (1 - kr - kb) / (1 - kb) + 1 / 2 = 0"
    using nz by (simp add: divide_simps)
  show "1 / 2 + - (1 / 2) * (1 - kr - kb) / (1 - kr) + - (1 / 2) * kb / (1 - kr) = 0"
    using nz by (simp add: divide_simps)
qed

lemma luma_sum_near_scale:
  "\<bar>rat_of_int (np_round (kr * (65536 * 219 / 255)) + np_round ((1 - kr - kb) * (65536 * 219 / 255))
           + np_round (kb * (65536 * 219 / 255))) - 65536 * 219 / 255\<bar> \<le> 3 / 2"
  by (rule three_rounded_sum) algebra

lemma chroma_sums_small:
  assumes "kb \<noteq> 1" "kr \<noteq> 1"
  shows "\<bar>np_round (- (1 / 2) * kr / (1 - kb) * (65536 * 224 / 255))
         + np_round (- (1 / 2) * (1 - kr - kb) / (1 - kb) * (65536 * 224 / 255))
         + np_round (1 / 2 * (65536 * 224 / 255))\<bar> \<le> 1"
    and "\<bar>np_round (1 / 2 * (65536 * 224 / 255))
         + np_round (- (1 / 2) * (1 - kr - kb) / (1 - kr) * (65536 * 224 / 255))
         + np_round (- (1 / 2) * kb / (1 - kr) * (65536 * 224 / 255))\<bar> \<le> 1"
proof -
  have e1: "- (1 / 2) * kr / (1 - kb) * (65536 * 224 / 255)
      + - (1 / 2) * (1 - kr - kb) / (1 - kb) * (65536 * 224 / 255)
      + 1 / 2 * (65536 * 224 / 255) = 0"
    using A_spec_chroma_rows_sum(1) [OF assms]
    by (simp only: distrib_right [symmetric] mult_zero_left)
  have e2: "1 / 2 * (65536 * 224 / 255)
      + - (1 / 2) * (1 - kr - kb) / (1 - kr) * (65536 * 224 / 255)
      + - (1 / 2) * kb / (1 - kr) * (65536 * 224 / 255) = 0"
    using A_spec_chroma_rows_sum(2) [OF assms]
    by (simp only: distrib_right [symmetric] mult_zero_left)
  show "\<bar>np_round (- (1 / 2) * kr / (1 - kb) * (65536 * 224 / 255))
         + np_round (- (1 / 2) * (1 - kr - kb) / (1 - kb) * (65536 * 224 / 255))
         + np_round (1 / 2 * (65536 * 224 / 255))\<bar> \<le> 1"
    using three_rounded_sum [OF e1] by (intro int_abs_le_1) simp
  show "\<bar>np_round (1 / 2 * (65536 * 224 / 255))
         + np_round (- (1 / 2) * (1 - kr - kb) / (1 - kr) * (65536 * 224 / 255))
         + np_round (- (1 / 2) * kb / (1 - kr) * (65536 * 224 / 255))\<bar> \<le> 1"
    using three_rounded_sum [OF e2] by (intro int_abs_le_1) simp
qed

subsection \<open>Runs with an arbitrary inversion routine\<close>







subsection \<open>The run at the script's own weights\<close>

lemma show_int_bt709:
  "show_int 1081344 = ''1081344''" "show_int 8421376 = ''8421376''" "show_int 32768 = ''32768''"
  "show_int 11966 = ''11966''" "show_int 40254 = ''40254''" "show_int 4064 = ''4064''"
  "show_int (- 6596) = ''-6596''" "show_int (- 22189) = ''-22189''" "show_int 28784 = ''28784''"
  "show_int (- 26145) = ''-26145''" "show_int (- 2639) = ''-2639''"
  "show_int 76309 = ''76309''" "show_int 0 = ''0''" "show_int 120171 = ''120171''"
  "show_int 74606 = ''74606''" "show_int (- 13975) = ''-13975''" "show_int (- 34925) = ''-34925''"
  "show_int 138438 = ''138438''"
  by (simp_all add: show_int_def show_nat.simps digit_char_def)

lemma script_output:
  "script =
     ([[], ''RGB to YCbCr:'',
       ''(1081344 + 11966*r + 40254*g + 4064*b)>>16'',
       ''(8421376 + -6596*r + -22189*g + 28784*b)>>16'',
       ''(8421376 + 28784*r + -26145*g + -2639*b)>>16'',
       [], ''YCbCr to RGB:'', ''y -= 16'', ''cb -= 128'', ''cr -= 128'',
       ''(32768 + 76309*y + 0*cb + 120171*cr)>>16'',
       ''(32768 + 74606*y + -13975*cb + -34925*cr)>>16'',
       ''(32768 + 74606*y + 138438*cb + 0*cr)>>16''], None)"
proof -
  have F: "forward_table (722 / 10000) (2126 / 10000) =
     Inr [[1081344, 11966, 40254, 4064], [8421376, - 6596, - 22189, 28784],
          [8421376, 28784, - 26145, - 2639]]"
    using forward_table_bt709 by simp
  have G: "inverse_table (722 / 10000) (2126 / 10000) =
     Inr [[32768, 76309, 0, 120171], [32768, 74606, - 13975, - 34925],
          [32768, 74606, 138438, 0]]"
    using inverse_table_bt709 by simp
  show ?thesis
    unfolding script_def kb_bt709_def kr_bt709_def program_prints_tables [OF F G]
      forward_line_def inverse_line_def show_int_bt709
    by simp
qed

text \<open>
  For comparison, the integers obtained when the columns of the inverse are scaled
  instead of its rows (first column by \<open>65536*255/219\<close>, second and third by
  \<open>65536*255/224\<close>), applied to what the forward rows give for the pixel
  \<open>(0, 234, 253)\<close>.
\<close>

lemma column_scaled_inverse_bt709:
  "np_round (1 * (65536 * 255 / 219)) = 76309
   \<and> np_round (2 * (1 - 2126 / 10000) * (65536 * 255 / 224)) = 117489
   \<and> apply_inverse [[32768, 76309, 0, 117489], [32768, 76309, - 13975, - 34925],
        [32768, 76309, 138438, 0]] (175, 160, 24) = (- 1, 234, 253)"
proof -
  have "np_round (1 * (65536 * 255 / 219)) = 76309"
    "np_round (2 * (1 - 2126 / 10000) * (65536 * 255 / 224)) = 117489"
    by (rule np_round_eqI, simp)+
  then show ?thesis
    by (simp add: apply_inverse_def eval_row_def)
qed

section \<open>The properties of the specification\<close>

text \<open>
  C1: the round trip through the printed forward and inverse expressions at the
  script's own weights (BT.709). The two tables are the printed ones; the pixel
  \<open>(0, 234, 253)\<close> goes forward to \<open>(175, 160, 24)\<close> and comes back as
  \<open>(-6, 230, 249)\<close>, and white \<open>(255, 255, 255)\<close> comes back as \<open>(255, 249, 249)\<close>: further
  than 1 from the input in every channel of the first and in two channels of the second.
\<close>

theorem round_trip_bt709_fails:
  "forward_table (722 / 10000) (2126 / 10000) =
     Inr [[1081344, 11966, 40254, 4064], [8421376, - 6596, - 22189, 28784],
          [8421376, 28784, - 26145, - 2639]]
   \<and> inverse_table (722 / 10000) (2126 / 10000) =
     Inr [[32768, 76309, 0, 120171], [32768, 74606, - 13975, - 34925],
          [32768, 74606, 138438, 0]]
   \<and> apply_forward [[1081344, 11966, 40254, 4064], [8421376, - 6596, - 22189, 28784],
        [8421376, 28784, - 26145, - 2639]] (0, 234, 253) = (175, 160, 24)
   \<and> round_trip (722 / 10000) (2126 / 10000) (0, 234, 253) = Inr (- 6, 230, 249)
   \<and> round_trip (722 / 10000) (2126 / 10000) (255, 255, 255) = Inr (255, 249, 249)"
  by (simp add: round_trip_def bindE_def forward_table_bt709 inverse_table_bt709
      apply_forward_def apply_inverse_def eval_row_def)

text \<open>
  C2: for valid weights the script obtains a forward matrix and an inverse of it, and
  before any scaling their product is exactly the identity matrix (on either side).
\<close>

theorem inverse_is_exact:
  assumes "valid_weights kb kr"
  shows "\<exists>A0 B0. matrix_A kb kr = Inr A0 \<and> linalg_inv A0 = Inr B0
    \<and> mat_mul A0 B0 = identity3 \<and> mat_mul B0 A0 = identity3"
proof -
  note nd = valid_weights_nondegenerate [OF assms]
  have "matrix_A kb kr = Inr (A_spec kb kr)"
    using nd by (simp add: matrix_A_eq)
  moreover have "linalg_inv (A_spec kb kr) = Inr (B_closed kb kr)"
    using nd by (rule linalg_inv_A_spec)
  moreover have "mat_mul (A_spec kb kr) (B_closed kb kr) = identity3"
    using nd by (rule mat_mul_A_B)
  moreover have "mat_mul (B_closed kb kr) (A_spec kb kr) = identity3"
    using nd by (rule mat_mul_B_A)
  ultimately show ?thesis by blast
qed

theorem inverse_is_exact_witness:
  "valid_weights (361 / 5000) (1063 / 5000)
    \<and> (\<exists>A0 B0. matrix_A (361 / 5000) (1063 / 5000) = Inr A0 \<and> linalg_inv A0 = Inr B0
          \<and> mat_mul A0 B0 = identity3 \<and> mat_mul B0 A0 = identity3)"
  using inverse_is_exact [of "361 / 5000" "1063 / 5000"] valid_bt709 by simp

text \<open>
  C3: for weights with \<open>0 < kb < 1\<close>, \<open>0 < kr < 1\<close> and \<open>kb + kr < 1\<close> the matrix the script
  builds is, entry by entry, the matrix of the specification's three row formulas; in
  particular the script's entries \<open>0.5*(1-kb)/(1-kb)\<close> and \<open>0.5*(1.0-kr)/(1-kr)\<close> are
  \<open>0.5\<close>.
\<close>

theorem forward_matrix_matches_spec:
  assumes "0 < kb" "kb < 1" "0 < kr" "kr < 1" "kb + kr < 1"
  shows "matrix_A kb kr = Inr (A_spec kb kr)
    \<and> py_truediv (1 / 2 * (1 - kb)) (1 - kb) = Inr (1 / 2)
    \<and> py_truediv (1 / 2 * (1 - kr)) (1 - kr) = Inr (1 / 2)"
  using assms by (simp add: matrix_A_eq py_truediv_def)

theorem forward_matrix_matches_spec_witness:
  "(0::rat) < 361 / 5000 \<and> (361 / 5000 :: rat) < 1 \<and> (0::rat) < 1063 / 5000
    \<and> (1063 / 5000 :: rat) < 1 \<and> (361 / 5000 + 1063 / 5000 :: rat) < 1
    \<and> matrix_A (361 / 5000) (1063 / 5000) = Inr (A_spec (361 / 5000) (1063 / 5000))
    \<and> matrix_A (361 / 5000) (1063 / 5000) =
        Inr [[1063 / 5000, 447 / 625, 361 / 5000],
             [- (1063 / 9278), - (1788 / 4639), 1 / 2],
             [1 / 2, - (1788 / 3937), - (361 / 7874)]]"
  using forward_matrix_matches_spec [of "361 / 5000" "1063 / 5000"]
  by (simp add: A_spec_def)

text \<open>
  C4: whenever the script prints, the printed text is exactly a blank line, the line
  \<open>RGB to YCbCr:\<close>, three forward lines, a blank line, the line \<open>YCbCr to RGB:\<close>, the
  lines \<open>y -= 16\<close>, \<open>cb -= 128\<close>, \<open>cr -= 128\<close> and three inverse lines, the run ends
  without an exception, and every placeholder of a line is a base-10 signed integer.
\<close>

theorem output_structure:
  assumes "kb \<noteq> 1" "kr \<noteq> 1" "kb + kr \<noteq> 1"
  shows "(\<exists>b0 m00 m01 m02 b1 m10 m11 m12 b2 m20 m21 m22
           c0 n00 n01 n02 c1 n10 n11 n12 c2 n20 n21 n22.
      program kb kr =
       ([[], ''RGB to YCbCr:'',
         forward_line b0 m00 m01 m02, forward_line b1 m10 m11 m12, forward_line b2 m20 m21 m22,
         [], ''YCbCr to RGB:'', ''y -= 16'', ''cb -= 128'', ''cr -= 128'',
         inverse_line c0 n00 n01 n02, inverse_line c1 n10 n11 n12, inverse_line c2 n20 n21 n22],
        None))
    \<and> (\<forall>i. signed_decimal (show_int i))"
proof -
  from program_succeeds [OF assms]
  obtain m00 m01 m02 m10 m11 m12 m20 m21 m22 n00 n01 n02 n10 n11 n12 n20 n21 n22 where
    P: "program kb kr =
     ([[], ''RGB to YCbCr:'',
       forward_line 1081344 m00 m01 m02, forward_line 8421376 m10 m11 m12,
       forward_line 8421376 m20 m21 m22,
       [], ''YCbCr to RGB:'', ''y -= 16'', ''cb -= 128'', ''cr -= 128'',
       inverse_line 32768 n00 n01 n02, inverse_line 32768 n10 n11 n12,
       inverse_line 32768 n20 n21 n22], None)"
    by blast
  have "\<exists>b0 m00 m01 m02 b1 m10 m11 m12 b2 m20 m21 m22
           c0 n00 n01 n02 c1 n10 n11 n12 c2 n20 n21 n22.
      program kb kr =
       ([[], ''RGB to YCbCr:'',
         forward_line b0 m00 m01 m02, forward_line b1 m10 m11 m12, forward_line b2 m20 m21 m22,
         [], ''YCbCr to RGB:'', ''y -= 16'', ''cb -= 128'', ''cr -= 128'',
         inverse_line c0 n00 n01 n02, inverse_line c1 n10 n11 n12, inverse_line c2 n20 n21 n22],
        None)"
    unfolding P by (intro exI) (rule refl)
  then show ?thesis
    using show_int_signed_decimal by simp
qed

theorem output_structure_witness:
  "kb_bt709 \<noteq> 1 \<and> kr_bt709 \<noteq> 1 \<and> kb_bt709 + kr_bt709 \<noteq> 1
   \<and> program kb_bt709 kr_bt709 =
     ([[], ''RGB to YCbCr:'',
       ''(1081344 + 11966*r + 40254*g + 4064*b)>>16'',
       ''(8421376 + -6596*r + -22189*g + 28784*b)>>16'',
       ''(8421376 + 28784*r + -26145*g + -2639*b)>>16'',
       [], ''YCbCr to RGB:'', ''y -= 16'', ''cb -= 128'', ''cr -= 128'',
       ''(32768 + 76309*y + 0*cb + 120171*cr)>>16'',
       ''(32768 + 74606*y + -13975*cb + -34925*cr)>>16'',
       ''(32768 + 74606*y + 138438*cb + 0*cr)>>16''], None)
   \<and> (\<exists>b0 m00 m01 m02 b1 m10 m11 m12 b2 m20 m21 m22
           c0 n00 n01 n02 c1 n10 n11 n12 c2 n20 n21 n22.
      program kb_bt709 kr_bt709 =
       ([[], ''RGB to YCbCr:'',
         forward_line b0 m00 m01 m02, forward_line b1 m10 m11 m12, forward_line b2 m20 m21 m22,
         [], ''YCbCr to RGB:'', ''y -= 16'', ''cb -= 128'', ''cr -= 128'',
         inverse_line c0 n00 n01 n02, inverse_line c1 n10 n11 n12, inverse_line c2 n20 n21 n22],
        None))"
proof -
  have h: "kb_bt709 \<noteq> 1" "kr_bt709 \<noteq> 1" "kb_bt709 + kr_bt709 \<noteq> 1"
    by (simp_all add: kb_bt709_def kr_bt709_def)
  from output_structure [OF h] h script_output [unfolded script_def] show ?thesis
    by (simp only: simp_thms)
qed

text \<open>
  C5: whenever the script prints (the weights are not 1 and do not sum to 1), the bias
  of the forward luma row is \<open>16*65536+32768 = 1081344\<close>, the bias of both forward
  chroma rows is \<open>128*65536+32768 = 8421376\<close>, and the bias of each of the three inverse
  rows is 32768, in the tables and in the printed lines.
\<close>

theorem biases_exact:
  assumes "kb \<noteq> 1" "kr \<noteq> 1" "kb + kr \<noteq> 1"
  shows "\<exists>m00 m01 m02 m10 m11 m12 m20 m21 m22 n00 n01 n02 n10 n11 n12 n20 n21 n22.
    forward_table kb kr =
      Inr [[16 * 65536 + 32768, m00, m01, m02], [128 * 65536 + 32768, m10, m11, m12],
           [128 * 65536 + 32768, m20, m21, m22]]
    \<and> inverse_table kb kr =
      Inr [[32768, n00, n01, n02], [32768, n10, n11, n12], [32768, n20, n21, n22]]
    \<and> take 3 (drop 2 (fst (program kb kr))) =
      [forward_line 1081344 m00 m01 m02, forward_line 8421376 m10 m11 m12,
       forward_line 8421376 m20 m21 m22]
    \<and> drop 10 (fst (program kb kr)) =
      [inverse_line 32768 n00 n01 n02, inverse_line 32768 n10 n11 n12,
       inverse_line 32768 n20 n21 n22]"
proof -
  from program_succeeds [OF assms]
  obtain m00 m01 m02 m10 m11 m12 m20 m21 m22 n00 n01 n02 n10 n11 n12 n20 n21 n22 where
    F: "forward_table kb kr =
      Inr [[1081344, m00, m01, m02], [8421376, m10, m11, m12], [8421376, m20, m21, m22]]"
    and G: "inverse_table kb kr =
      Inr [[32768, n00, n01, n02], [32768, n10, n11, n12], [32768, n20, n21, n22]]"
    and P: "program kb kr =
     ([[], ''RGB to YCbCr:'',
       forward_line 1081344 m00 m01 m02, forward_line 8421376 m10 m11 m12,
       forward_line 8421376 m20 m21 m22,
       [], ''YCbCr to RGB:'', ''y -= 16'', ''cb -= 128'', ''cr -= 128'',
       inverse_line 32768 n00 n01 n02, inverse_line 32768 n10 n11 n12,
       inverse_line 32768 n20 n21 n22], None)"
    by blast
  have "take 3 (drop 2 (fst (program kb kr))) =
      [forward_line 1081344 m00 m01 m02, forward_line 8421376 m10 m11 m12,
       forward_line 8421376 m20 m21 m22]"
    by (simp add: P)
  moreover have "drop 10 (fst (program kb kr)) =
      [inverse_line 32768 n00 n01 n02, inverse_line 32768 n10 n11 n12,
       inverse_line 32768 n20 n21 n22]"
    by (simp add: P)
  moreover have "forward_table kb kr =
      Inr [[16 * 65536 + 32768, m00, m01, m02], [128 * 65536 + 32768, m10, m11, m12],
           [128 * 65536 + 32768, m20, m21, m22]]"
    by (simp add: F)
  ultimately show ?thesis using G by blast
qed

theorem biases_exact_witness:
  "(361 / 5000 :: rat) \<noteq> 1 \<and> (1063 / 5000 :: rat) \<noteq> 1 \<and> (361 / 5000 + 1063 / 5000 :: rat) \<noteq> 1
   \<and> map hd (projr (forward_table (361 / 5000) (1063 / 5000))) = [1081344, 8421376, 8421376]
   \<and> map hd (projr (inverse_table (361 / 5000) (1063 / 5000))) = [32768, 32768, 32768]"
proof -
  have h: "(361 / 5000 :: rat) \<noteq> 1" "(1063 / 5000 :: rat) \<noteq> 1"
    "(361 / 5000 + 1063 / 5000 :: rat) \<noteq> 1"
    by simp_all
  from biases_exact [OF h] show ?thesis
    by auto
qed

text \<open>
  C6: for valid weights, with \<open>B0\<close> the inverse the script computes, the inverse
  coefficients are the entries of \<open>B0\<close> scaled by \<open>65536*255/219\<close> in the first row and by
  \<open>65536*255/224\<close> in the second and third rows and rounded; each is within one half of the
  scaled entry; and the printed inverse lines carry exactly these integers after the
  bias 32768.
\<close>

theorem inverse_coefficients_scaled_rounded:
  assumes "valid_weights kb kr"
  shows "\<exists>A0 B0. matrix_A kb kr = Inr A0 \<and> linalg_inv A0 = Inr B0
    \<and> inverse_table kb kr =
        Inr (map (\<lambda>i. 32768 # map (\<lambda>j. np_round (scaled_inverse_entry B0 i j)) [0, 1, 2])
               [0, 1, 2])
    \<and> drop 10 (fst (program kb kr)) =
        map (\<lambda>i. inverse_line 32768 (np_round (scaled_inverse_entry B0 i 0))
                     (np_round (scaled_inverse_entry B0 i 1))
                     (np_round (scaled_inverse_entry B0 i 2))) [0, 1, 2]
    \<and> (\<forall>i j. \<bar>of_int (np_round (scaled_inverse_entry B0 i j)) - scaled_inverse_entry B0 i j\<bar>
           \<le> 1 / 2)"
proof -
  note nd = valid_weights_nondegenerate [OF assms]
  have A: "matrix_A kb kr = Inr (A_spec kb kr)"
    using nd by (simp add: matrix_A_eq)
  have B: "linalg_inv (A_spec kb kr) = Inr (B_closed kb kr)"
    using nd by (rule linalg_inv_A_spec)
  have T: "inverse_table kb kr =
        Inr (map (\<lambda>i. 32768 # map (\<lambda>j. np_round (scaled_inverse_entry (B_closed kb kr) i j))
               [0, 1, 2]) [0, 1, 2])"
    unfolding inverse_table_3x3 [OF A B [unfolded B_closed_def]]
    by (simp add: scaled_inverse_entry_def inverse_factor_def B_closed_def)
  have F: "\<exists>b0 m00 m01 m02 b1 m10 m11 m12 b2 m20 m21 m22. forward_table kb kr =
      Inr [[b0, m00, m01, m02], [b1, m10, m11, m12], [b2, m20, m21, m22]]"
    using tables_nondegenerate(1) [OF nd] by blast
  then obtain b0 m00 m01 m02 b1 m10 m11 m12 b2 m20 m21 m22 where F': "forward_table kb kr =
      Inr [[b0, m00, m01, m02], [b1, m10, m11, m12], [b2, m20, m21, m22]]"
    by blast
  have P: "drop 10 (fst (program kb kr)) =
        map (\<lambda>i. inverse_line 32768 (np_round (scaled_inverse_entry (B_closed kb kr) i 0))
                     (np_round (scaled_inverse_entry (B_closed kb kr) i 1))
                     (np_round (scaled_inverse_entry (B_closed kb kr) i 2))) [0, 1, 2]"
    using program_prints_tables [OF F' T [simplified]] by simp
  show ?thesis
    using A B T P inverse_entries_nearest by blast
qed

theorem inverse_coefficients_scaled_rounded_witness:
  "valid_weights (361 / 5000) (1063 / 5000)
   \<and> (\<exists>A0 B0. matrix_A (361 / 5000) (1063 / 5000) = Inr A0 \<and> linalg_inv A0 = Inr B0
    \<and> inverse_table (361 / 5000) (1063 / 5000) =
        Inr (map (\<lambda>i. 32768 # map (\<lambda>j. np_round (scaled_inverse_entry B0 i j)) [0, 1, 2])
               [0, 1, 2]))"
  using inverse_coefficients_scaled_rounded [OF valid_bt709] valid_bt709 by blast

text \<open>
  C7: for valid weights the three multiplicative coefficients of the printed forward
  luma row, each divided by \<open>65536*219/255\<close> and summed, are within
  \<open>3/(65536*219/255)\<close> of 1.
\<close>

theorem luma_row_sum:
  assumes "valid_weights kb kr"
  shows "\<exists>m0 m1 m2 r1 r2.
    forward_table kb kr = Inr [[1081344, m0, m1, m2], r1, r2]
    \<and> fst (program kb kr) ! 2 = forward_line 1081344 m0 m1 m2
    \<and> \<bar>rat_of_int m0 / (65536 * 219 / 255) + rat_of_int m1 / (65536 * 219 / 255)
          + rat_of_int m2 / (65536 * 219 / 255) - 1\<bar> \<le> 3 / (65536 * 219 / 255)"
proof -
  note nd = valid_weights_nondegenerate [OF assms]
  define m0 where "m0 = np_round (kr * (65536 * 219 / 255))"
  define m1 where "m1 = np_round ((1 - kr - kb) * (65536 * 219 / 255))"
  define m2 where "m2 = np_round (kb * (65536 * 219 / 255))"
  from tables_nondegenerate [OF nd]
  obtain m10 m11 m12 m20 m21 m22 n00 n01 n02 n10 n11 n12 n20 n21 n22 where
    F: "forward_table kb kr =
      Inr [[1081344, m0, m1, m2], [8421376, m10, m11, m12], [8421376, m20, m21, m22]]"
    and G: "inverse_table kb kr =
      Inr [[32768, n00, n01, n02], [32768, n10, n11, n12], [32768, n20, n21, n22]]"
    unfolding m0_def m1_def m2_def by blast
  have P: "fst (program kb kr) ! 2 = forward_line 1081344 m0 m1 m2"
    by (simp add: program_prints_tables [OF F G])
  have "\<bar>rat_of_int (m0 + m1 + m2) - 65536 * 219 / 255\<bar> \<le> 3 / 2"
    unfolding m0_def m1_def m2_def by (rule luma_sum_near_scale)
  then have "\<bar>rat_of_int m0 + rat_of_int m1 + rat_of_int m2 - 65536 * 219 / 255\<bar> \<le> 3 / 2"
    by (simp only: of_int_add)
  then have "\<bar>rat_of_int m0 / (65536 * 219 / 255) + rat_of_int m1 / (65536 * 219 / 255)
          + rat_of_int m2 / (65536 * 219 / 255) - 1\<bar> \<le> 3 / (65536 * 219 / 255)"
    by (intro scaled_sum_bound) simp_all
  with F P show ?thesis by blast
qed

theorem luma_row_sum_witness:
  "valid_weights (361 / 5000) (1063 / 5000)
   \<and> (\<exists>r1 r2. forward_table (361 / 5000) (1063 / 5000) = Inr [[1081344, 11966, 40254, 4064], r1, r2])
   \<and> (\<exists>m0 m1 m2 r1 r2.
      forward_table (361 / 5000) (1063 / 5000) = Inr [[1081344, m0, m1, m2], r1, r2]
      \<and> fst (program (361 / 5000) (1063 / 5000)) ! 2 = forward_line 1081344 m0 m1 m2
      \<and> \<bar>rat_of_int m0 / (65536 * 219 / 255) + rat_of_int m1 / (65536 * 219 / 255)
            + rat_of_int m2 / (65536 * 219 / 255) - 1\<bar> \<le> 3 / (65536 * 219 / 255))"
  using luma_row_sum [OF valid_bt709] valid_bt709 forward_table_bt709 by simp



text \<open>
  C10: for valid weights each chroma row of the unscaled forward matrix sums to 0; the
  three multiplicative coefficients of each forward chroma row sum to an integer of
  absolute value at most 1, hence at most 2; and on a gray input \<open>r = g = b = v\<close> the value
  of a chroma row before the shift is the bias 8421376 plus \<open>v\<close> times that residue.
\<close>

theorem chroma_rows_balance:
  assumes "valid_weights kb kr"
  shows "\<exists>A0 r0 m10 m11 m12 m20 m21 m22.
    matrix_A kb kr = Inr A0 \<and> sum_list (A0 ! 1) = 0 \<and> sum_list (A0 ! 2) = 0
    \<and> forward_table kb kr = Inr [r0, [8421376, m10, m11, m12], [8421376, m20, m21, m22]]
    \<and> \<bar>m10 + m11 + m12\<bar> \<le> 1 \<and> \<bar>m20 + m21 + m22\<bar> \<le> 1
    \<and> \<bar>m10 + m11 + m12\<bar> \<le> 2 \<and> \<bar>m20 + m21 + m22\<bar> \<le> 2
    \<and> (\<forall>v. row_value [8421376, m10, m11, m12] (v, v, v) = 8421376 + (m10 + m11 + m12) * v)
    \<and> (\<forall>v. row_value [8421376, m20, m21, m22] (v, v, v) = 8421376 + (m20 + m21 + m22) * v)"
proof -
  note nd = valid_weights_nondegenerate [OF assms]
  define m10 where "m10 = np_round (- (1 / 2) * kr / (1 - kb) * (65536 * 224 / 255))"
  define m11 where "m11 = np_round (- (1 / 2) * (1 - kr - kb) / (1 - kb) * (65536 * 224 / 255))"
  define m12 where "m12 = np_round (1 / 2 * (65536 * 224 / 255))"
  define m20 where "m20 = np_round (1 / 2 * (65536 * 224 / 255))"
  define m21 where "m21 = np_round (- (1 / 2) * (1 - kr - kb) / (1 - kr) * (65536 * 224 / 255))"
  define m22 where "m22 = np_round (- (1 / 2) * kb / (1 - kr) * (65536 * 224 / 255))"
  have A: "matrix_A kb kr = Inr (A_spec kb kr)"
    using nd by (simp add: matrix_A_eq)
  have s1: "sum_list (A_spec kb kr ! 1) = 0"
    using A_spec_chroma_rows_sum(1) [OF nd(1,2)] by (simp add: A_spec_def)
  have s2: "sum_list (A_spec kb kr ! 2) = 0"
    using A_spec_chroma_rows_sum(2) [OF nd(1,2)] by (simp add: A_spec_def)
  from tables_nondegenerate(1) [OF nd]
  obtain r0 where
    F: "forward_table kb kr = Inr [r0, [8421376, m10, m11, m12], [8421376, m20, m21, m22]]"
    unfolding m10_def m11_def m12_def m20_def m21_def m22_def by blast
  have c1: "\<bar>m10 + m11 + m12\<bar> \<le> 1"
    unfolding m10_def m11_def m12_def by (rule chroma_sums_small(1) [OF nd(1,2)])
  have c2: "\<bar>m20 + m21 + m22\<bar> \<le> 1"
    unfolding m20_def m21_def m22_def by (rule chroma_sums_small(2) [OF nd(1,2)])
  have g1: "\<forall>v. row_value [8421376, m10, m11, m12] (v, v, v) = 8421376 + (m10 + m11 + m12) * v"
    by (simp add: algebra_simps)
  have g2: "\<forall>v. row_value [8421376, m20, m21, m22] (v, v, v) = 8421376 + (m20 + m21 + m22) * v"
    by (simp add: algebra_simps)
  from c1 c2 have "\<bar>m10 + m11 + m12\<bar> \<le> 2" "\<bar>m20 + m21 + m22\<bar> \<le> 2" by simp_all
  with A s1 s2 F c1 c2 g1 g2 show ?thesis by blast
qed

theorem chroma_rows_balance_witness:
  "valid_weights (361 / 5000) (1063 / 5000)
   \<and> (\<exists>A0 r0 m10 m11 m12 m20 m21 m22.
    matrix_A (361 / 5000) (1063 / 5000) = Inr A0 \<and> sum_list (A0 ! 1) = 0 \<and> sum_list (A0 ! 2) = 0
    \<and> forward_table (361 / 5000) (1063 / 5000) =
        Inr [r0, [8421376, m10, m11, m12], [8421376, m20, m21, m22]]
    \<and> \<bar>m10 + m11 + m12\<bar> \<le> 1 \<and> \<bar>m20 + m21 + m22\<bar> \<le> 1)
   \<and> \<bar>- 6596 + - 22189 + 28784 :: int\<bar> \<le> 1 \<and> \<bar>28784 + - 26145 + - 2639 :: int\<bar> \<le> 1"
proof -
  from chroma_rows_balance [OF valid_bt709]
  have "\<exists>A0 r0 m10 m11 m12 m20 m21 m22.
    matrix_A (361 / 5000) (1063 / 5000) = Inr A0 \<and> sum_list (A0 ! 1) = 0 \<and> sum_list (A0 ! 2) = 0
    \<and> forward_table (361 / 5000) (1063 / 5000) =
        Inr [r0, [8421376, m10, m11, m12], [8421376, m20, m21, m22]]
    \<and> \<bar>m10 + m11 + m12\<bar> \<le> 1 \<and> \<bar>m20 + m21 + m22\<bar> \<le> 1"
    by blast
  then show ?thesis using valid_bt709 by simp
qed

end
